theory Spec2Isabelle
  imports Complex_Main "HOL-Library.AList"
begin

section \<open>Values, mappings and exceptions\<close>

text \<open>
  A schema node, the references table, the session state and every value stored in them
  are Python values built from \<^verbatim>\<open>None\<close>, booleans, numbers, strings, lists and
  dictionaries with string keys. A dictionary is an association list in insertion
  order whose keys are distinct; a lookup reads the first entry of a key and
  \<open>AList.update\<close> overwrites an entry in place or appends a new one, as assignment to
  a Python dictionary does. A finite float is the rational number it denotes, which is
  exact for the only operations used on it here (truth value, equality, comparison).
\<close>

datatype json =
    JNull
  | JBool bool
  | JInt int
  | JFloat rat
  | JStr string
  | JList "json list"
  | JObj "(string \<times> json) list"

type_synonym dict = "(string \<times> json) list"

datatype error =
    KeyError
  | IndexError
  | TypeError
  | AttributeError
  | ValueError
  | StopIteration
  | JSONDecodeError

definition bind_e :: "error + 'a \<Rightarrow> ('a \<Rightarrow> error + 'b) \<Rightarrow> error + 'b" where
  "bind_e m f = (case m of Inl e \<Rightarrow> Inl e | Inr x \<Rightarrow> f x)"

text \<open>The truth value of a Python value, as tested by \<^verbatim>\<open>if x\<close>, \<^verbatim>\<open>not x\<close>, \<^verbatim>\<open>and\<close>.\<close>

fun truthy :: "json \<Rightarrow> bool" where
  "truthy JNull = False"
| "truthy (JBool b) = b"
| "truthy (JInt i) = (i \<noteq> 0)"
| "truthy (JFloat r) = (r \<noteq> 0)"
| "truthy (JStr s) = (s \<noteq> [])"
| "truthy (JList xs) = (xs \<noteq> [])"
| "truthy (JObj kvs) = (kvs \<noteq> [])"

text \<open>\<^verbatim>\<open>d.get(k)\<close>, \<^verbatim>\<open>d.get(k, default)\<close> and \<^verbatim>\<open>k in d\<close> on a dictionary.\<close>

definition get_d :: "dict \<Rightarrow> string \<Rightarrow> json \<Rightarrow> json" where
  "get_d d k dflt = (case map_of d k of None \<Rightarrow> dflt | Some v \<Rightarrow> v)"

definition get :: "dict \<Rightarrow> string \<Rightarrow> json" where
  "get d k = get_d d k JNull"

definition has_key :: "string \<Rightarrow> dict \<Rightarrow> bool" where
  "has_key k d = (map_of d k \<noteq> None)"

text \<open>
  The number a value stands for in a comparison with an integer: booleans count as 0
  and 1; any other value makes \<^verbatim>\<open><=\<close> raise \<^verbatim>\<open>TypeError\<close>.
\<close>

fun as_number :: "json \<Rightarrow> error + rat" where
  "as_number (JBool b) = Inr (if b then 1 else 0)"
| "as_number (JInt i) = Inr (of_int i)"
| "as_number (JFloat r) = Inr r"
| "as_number _ = Inl TypeError"

definition int_le :: "int \<Rightarrow> json \<Rightarrow> error + bool" where
  "int_le i v = bind_e (as_number v) (\<lambda>r. Inr (of_int i \<le> r))"

text \<open>
  \<^verbatim>\<open>x == y\<close> on these values: lists are compared element by element, dictionaries
  entry by entry whatever their order, and booleans, integers and floats as numbers
  (\<^verbatim>\<open>True == 1\<close>, \<^verbatim>\<open>1 == 1.0\<close>).
\<close>

fun py_eq :: "json \<Rightarrow> json \<Rightarrow> bool" where
  "py_eq (JList xs) (JList ys) = list_all2 py_eq xs ys"
| "py_eq (JObj a) (JObj b) =
     (length a = length b \<and>
      (\<forall>(k, v) \<in> set a. case map_of b k of None \<Rightarrow> False | Some w \<Rightarrow> py_eq v w))"
| "py_eq (JStr s) (JStr t) = (s = t)"
| "py_eq JNull JNull = True"
| "py_eq x y = (case (as_number x, as_number y) of (Inr r, Inr q) \<Rightarrow> r = q | _ \<Rightarrow> False)"

text \<open>\<^verbatim>\<open>t in s\<close> on strings, and \<^verbatim>\<open>s.split(sep)\<close> for a one-character separator.\<close>

fun is_substring :: "string \<Rightarrow> string \<Rightarrow> bool" where
  "is_substring t [] = (t = [])"
| "is_substring t (c # cs) = (take (length t) (c # cs) = t \<or> is_substring t cs)"

fun split_on :: "char \<Rightarrow> string \<Rightarrow> string list" where
  "split_on sep [] = [[]]"
| "split_on sep (c # cs) =
     (if c = sep then [] # split_on sep cs
      else (case split_on sep cs of [] \<Rightarrow> [[c]] | w # ws \<Rightarrow> (c # w) # ws))"

text \<open>
  \<^verbatim>\<open>x[key]\<close>. A sequence takes an integer (or boolean) index, negative ones counting
  from the end, and raises \<^verbatim>\<open>IndexError\<close> out of range; a dictionary raises
  \<^verbatim>\<open>KeyError\<close> for a key it does not have and \<^verbatim>\<open>TypeError\<close> for an unhashable one;
  the other values cannot be subscripted.
\<close>

definition seq_index :: "'a list \<Rightarrow> int \<Rightarrow> error + 'a" where
  "seq_index xs i =
     (if 0 \<le> i \<and> i < int (length xs) then Inr (xs ! nat i)
      else if i < 0 \<and> 0 \<le> int (length xs) + i then Inr (xs ! nat (int (length xs) + i))
      else Inl IndexError)"

fun subscript :: "json \<Rightarrow> json \<Rightarrow> error + json" where
  "subscript (JObj d) (JStr k) = (case map_of d k of None \<Rightarrow> Inl KeyError | Some v \<Rightarrow> Inr v)"
| "subscript (JObj d) (JList _) = Inl TypeError"
| "subscript (JObj d) (JObj _) = Inl TypeError"
| "subscript (JObj d) _ = Inl KeyError"
| "subscript (JList xs) (JInt i) = seq_index xs i"
| "subscript (JList xs) (JBool b) = seq_index xs (if b then 1 else 0)"
| "subscript (JStr s) (JInt i) = bind_e (seq_index s i) (\<lambda>c. Inr (JStr [c]))"
| "subscript (JStr s) (JBool b) = bind_e (seq_index s (if b then 1 else 0)) (\<lambda>c. Inr (JStr [c]))"
| "subscript _ _ = Inl TypeError"

definition getitem :: "json \<Rightarrow> string \<Rightarrow> error + json" where
  "getitem x k = subscript x (JStr k)"

definition getitem0 :: "json \<Rightarrow> error + json" where
  "getitem0 x = subscript x (JInt 0)"

text \<open>\<^verbatim>\<open>a in x\<close>: a key of a dictionary, an element of a list, a substring of a string.\<close>

fun py_in :: "json \<Rightarrow> json \<Rightarrow> error + bool" where
  "py_in (JStr k) (JObj d) = Inr (has_key k d)"
| "py_in (JList _) (JObj d) = Inl TypeError"
| "py_in (JObj _) (JObj d) = Inl TypeError"
| "py_in _ (JObj d) = Inr False"
| "py_in a (JList xs) = Inr (\<exists>x \<in> set xs. py_eq x a)"
| "py_in (JStr t) (JStr s) = Inr (is_substring t s)"
| "py_in _ _ = Inl TypeError"

text \<open>\<^verbatim>\<open>x[k] = v\<close> for a string key, \<^verbatim>\<open>len(x)\<close>, \<^verbatim>\<open>for e in x\<close>, and a method call
  \<^verbatim>\<open>x.get(...)\<close>, which only a dictionary has.\<close>

fun setitem :: "json \<Rightarrow> string \<Rightarrow> json \<Rightarrow> error + json" where
  "setitem (JObj d) k v = Inr (JObj (AList.update k v d))"
| "setitem _ k v = Inl TypeError"

fun py_len :: "json \<Rightarrow> error + nat" where
  "py_len (JList xs) = Inr (length xs)"
| "py_len (JStr s) = Inr (length s)"
| "py_len (JObj d) = Inr (length d)"
| "py_len _ = Inl TypeError"

fun py_iter :: "json \<Rightarrow> error + json list" where
  "py_iter (JList xs) = Inr xs"
| "py_iter (JStr s) = Inr (map (\<lambda>c. JStr [c]) s)"
| "py_iter (JObj d) = Inr (map (\<lambda>kv. JStr (fst kv)) d)"
| "py_iter _ = Inl TypeError"

fun as_dict :: "json \<Rightarrow> error + dict" where
  "as_dict (JObj d) = Inr d"
| "as_dict _ = Inl AttributeError"

section \<open>Path-keyed state store\<close>

text \<open>
  \<^verbatim>\<open>_get_value_from_state(state, key)\<close> walks the segments of
  \<^verbatim>\<open>key.split(".")\<close>. On every segment but the last it stores \<^verbatim>\<open>{}\<close> under a
  segment that is \<^verbatim>\<open>not in state\<close> and moves to \<^verbatim>\<open>state[key_element]\<close>; on the last
  one it returns \<^verbatim>\<open>None\<close> when the segment is \<^verbatim>\<open>not in state\<close> and the entry
  otherwise. The dictionaries are changed in place; the walk therefore returns, next to
  its result, the container as it is afterwards, and puts the child it walked through
  back into its parent.
\<close>

fun store_child :: "json \<Rightarrow> string \<Rightarrow> json \<Rightarrow> json" where
  "store_child (JObj d) k c = JObj (AList.update k c d)"
| "store_child x k c = x"

fun get_value_walk :: "json \<Rightarrow> string list \<Rightarrow> (error + json) \<times> json" where
  "get_value_walk state [] = (Inr JNull, state)"
| "get_value_walk state [k] =
     (case py_in (JStr k) state of
        Inl e \<Rightarrow> (Inl e, state)
      | Inr present \<Rightarrow> if \<not> present then (Inr JNull, state) else (getitem state k, state))"
| "get_value_walk state (k # k' # ks) =
     (case py_in (JStr k) state of
        Inl e \<Rightarrow> (Inl e, state)
      | Inr present \<Rightarrow>
          (case (if \<not> present then setitem state k (JObj []) else Inr state) of
             Inl e \<Rightarrow> (Inl e, state)
           | Inr state1 \<Rightarrow>
               (case getitem state1 k of
                  Inl e \<Rightarrow> (Inl e, state1)
                | Inr child \<Rightarrow>
                    (case get_value_walk child (k' # ks) of
                       (r, child') \<Rightarrow> (r, store_child state1 k child')))))"

definition get_value_from_state :: "json \<Rightarrow> string \<Rightarrow> (error + json) \<times> json" where
  "get_value_from_state state key = get_value_walk state (split_on CHR ''.'' key)"

text \<open>
  Three notions used to state what the walk does: the mapping reached from \<open>d\<close> along
  segments that all exist and hold mappings; the chain of empty mappings
  \<^verbatim>\<open>{k1: {k2: ... {}}}\<close>; and a change made to the mapping at the end of such a path.
\<close>

fun descend :: "dict \<Rightarrow> string list \<Rightarrow> dict option" where
  "descend d [] = Some d"
| "descend d (k # ks) = (case map_of d k of Some (JObj c) \<Rightarrow> descend c ks | _ \<Rightarrow> None)"

fun nest :: "string list \<Rightarrow> json" where
  "nest [] = JObj []"
| "nest (k # ks) = JObj [(k, nest ks)]"

fun update_at :: "string list \<Rightarrow> (dict \<Rightarrow> dict) \<Rightarrow> dict \<Rightarrow> dict" where
  "update_at [] f d = f d"
| "update_at (k # ks) f d =
     (case map_of d k of Some (JObj c) \<Rightarrow> AList.update k (JObj (update_at ks f c)) d | _ \<Rightarrow> d)"

section \<open>Schema predicate library\<close>

text \<open>
  \<^verbatim>\<open>resolve_reference(reference, references)\<close> is
  \<^verbatim>\<open>references[reference.split("/")[-1]]\<close>; only a string has \<^verbatim>\<open>split\<close>.
\<close>

definition resolve_reference :: "json \<Rightarrow> dict \<Rightarrow> error + json" where
  "resolve_reference reference references =
     (case reference of
        JStr s \<Rightarrow> getitem (JObj references) (last (split_on CHR ''/'' s))
      | _ \<Rightarrow> Inl AttributeError)"

text \<open>The reference is the node's \<^verbatim>\<open>$ref\<close> or, when that is \<^verbatim>\<open>None\<close>, the
  \<^verbatim>\<open>$ref\<close> of the first element of \<^verbatim>\<open>allOf\<close>.\<close>

definition single_reference :: "dict \<Rightarrow> error + json" where
  "single_reference property =
     (if get property ''$ref'' = JNull
      then bind_e (getitem (JObj property) ''allOf'') (\<lambda>all_of.
           bind_e (getitem0 all_of) (\<lambda>first. getitem first ''$ref''))
      else Inr (get property ''$ref''))"

definition get_single_reference_item :: "dict \<Rightarrow> dict \<Rightarrow> error + json" where
  "get_single_reference_item property references =
     bind_e (single_reference property) (\<lambda>reference.
       resolve_reference reference references)"

fun resolve_all :: "json list \<Rightarrow> dict \<Rightarrow> error + json list" where
  "resolve_all [] references = Inr []"
| "resolve_all (reference # rest) references =
     bind_e (getitem reference ''$ref'') (\<lambda>r.
     bind_e (resolve_reference r references) (\<lambda>x.
     bind_e (resolve_all rest references) (\<lambda>xs. Inr (x # xs))))"

definition get_union_references :: "dict \<Rightarrow> dict \<Rightarrow> error + json list" where
  "get_union_references property references =
     bind_e (py_iter (get_d property ''oneOf'' (get property ''anyOf''))) (\<lambda>union_references.
       resolve_all union_references references)"

definition get_property_items :: "json \<Rightarrow> error + json" where
  "get_property_items property =
     bind_e (getitem property ''items'') (\<lambda>items.
       case items of
         JList _ \<Rightarrow> getitem0 items
       | JObj _ \<Rightarrow> Inr items
       | _ \<Rightarrow> Inl TypeError)"

definition is_single_string_property :: "dict \<Rightarrow> bool" where
  "is_single_string_property property = (get property ''type'' = JStr ''string'')"

definition is_single_color_property :: "dict \<Rightarrow> bool" where
  "is_single_color_property property =
     (if get property ''type'' \<noteq> JStr ''string'' then False
      else get property ''format'' = JStr ''color'')"

definition is_single_datetime_property :: "dict \<Rightarrow> bool" where
  "is_single_datetime_property property =
     (if get property ''type'' \<noteq> JStr ''string'' then False
      else get property ''format'' \<in> {JStr ''date-time'', JStr ''time'', JStr ''date''})"

definition is_single_boolean_property :: "dict \<Rightarrow> bool" where
  "is_single_boolean_property property = (get property ''type'' = JStr ''boolean'')"

definition is_single_number_property :: "dict \<Rightarrow> bool" where
  "is_single_number_property property =
     (get property ''type'' \<in> {JStr ''integer'', JStr ''number''})"

definition is_single_file_property :: "dict \<Rightarrow> bool" where
  "is_single_file_property property =
     (if get property ''type'' \<noteq> JStr ''string'' then False
      else get property ''format'' = JStr ''byte'')"

text \<open>
  The two enum predicates wrap their look-ups in \<^verbatim>\<open>try ... except Exception\<close>: any
  exception of a look-up is the answer "no" (or, in \<^verbatim>\<open>is_multi_enum_property\<close>,
  leads to the second attempt).
\<close>

definition is_multi_enum_property :: "dict \<Rightarrow> dict \<Rightarrow> bool" where
  "is_multi_enum_property property references =
     (if get property ''type'' \<noteq> JStr ''array'' then False
      else if get property ''uniqueItems'' \<noteq> JBool True then False
      else (case bind_e (get_property_items (JObj property)) (\<lambda>items. getitem items ''enum'') of
              Inr _ \<Rightarrow> True
            | Inl _ \<Rightarrow>
                (case bind_e (get_property_items (JObj property)) (\<lambda>items.
                      bind_e (getitem items ''$ref'') (\<lambda>r.
                      bind_e (resolve_reference r references) (\<lambda>item. getitem item ''enum''))) of
                   Inr _ \<Rightarrow> True
                 | Inl _ \<Rightarrow> False)))"

definition is_single_enum_property :: "dict \<Rightarrow> dict \<Rightarrow> bool" where
  "is_single_enum_property property references =
     (if truthy (get property ''enum'') then True
      else (case bind_e (get_single_reference_item property references)
                   (\<lambda>item. getitem item ''enum'') of
              Inr _ \<Rightarrow> True
            | Inl _ \<Rightarrow> False))"

definition is_single_dict_property :: "dict \<Rightarrow> bool" where
  "is_single_dict_property property =
     (if get property ''type'' \<noteq> JStr ''object'' then False
      else has_key ''additionalProperties'' property)"

definition is_single_reference :: "dict \<Rightarrow> bool" where
  "is_single_reference property =
     (if get property ''type'' \<noteq> JNull then False
      else truthy (get property ''$ref''))"

definition is_multi_file_property :: "dict \<Rightarrow> bool" where
  "is_multi_file_property property =
     (if get property ''type'' \<noteq> JStr ''array'' then False
      else if get property ''items'' = JNull then False
      else (case bind_e (get_property_items (JObj property)) (\<lambda>items. getitem items ''format'') of
              Inr f \<Rightarrow> f = JStr ''byte''
            | Inl _ \<Rightarrow> False))"

definition is_single_object :: "dict \<Rightarrow> dict \<Rightarrow> bool" where
  "is_single_object property references =
     (case bind_e (get_single_reference_item property references) (\<lambda>object_reference.
           bind_e (getitem object_reference ''type'') (\<lambda>t.
             if t \<noteq> JStr ''object'' then Inr False
             else py_in (JStr ''properties'') object_reference)) of
        Inr b \<Rightarrow> b
      | Inl _ \<Rightarrow> False)"

text \<open>\<^verbatim>\<open>is_union_property\<close> has no handler: \<^verbatim>\<open>len\<close> of a number and
  \<^verbatim>\<open>is_single_reference\<close> of a branch that is no dictionary raise.\<close>

fun all_single_reference :: "json list \<Rightarrow> error + bool" where
  "all_single_reference [] = Inr True"
| "all_single_reference (reference # rest) =
     bind_e (as_dict reference) (\<lambda>d.
       if \<not> is_single_reference d then Inr False else all_single_reference rest)"

definition is_union_property :: "dict \<Rightarrow> error + bool" where
  "is_union_property property =
     (let union_prop = get_d property ''oneOf'' (get property ''anyOf'') in
      if union_prop = JNull then Inr False
      else bind_e (py_len union_prop) (\<lambda>n.
        if n = 0 then Inr False
        else bind_e (py_iter union_prop) all_single_reference))"

text \<open>
  \<^verbatim>\<open>is_property_list_and_object\<close>. Only \<^verbatim>\<open>KeyError\<close> and \<^verbatim>\<open>TypeError\<close> of the
  first \<^verbatim>\<open>get_property_items\<close> lead to the \<^verbatim>\<open>anyOf\<close> branch. When the item's
  reference resolves to a primitive type the function rewrites the item in place
  (\<^verbatim>\<open>$ref\<close> removed, \<^verbatim>\<open>type\<close> set) and the test that follows then succeeds, so
  it returns true; when the reference resolves to an object it stores the item schema
  under \<^verbatim>\<open>items\<close> before it answers. No test that follows it in the dispatcher reads
  \<^verbatim>\<open>items\<close>, which is why the answer alone is kept here.
\<close>

definition primitive_types :: "json set" where
  "primitive_types = {JStr ''string'', JStr ''number'', JStr ''integer''}"

definition is_property_list_and_object :: "dict \<Rightarrow> dict \<Rightarrow> error + bool" where
  "is_property_list_and_object property references =
     (if get property ''type'' \<noteq> JStr ''array'' then Inr False
      else
        bind_e (if get property ''items'' = JNull
                then bind_e (getitem0 (get_d property ''anyOf'' (JList [JObj []]))) (\<lambda>first.
                     bind_e (as_dict first) (\<lambda>d. Inr (get d ''items'' = JNull)))
                else Inr False) (\<lambda>no_items.
        if no_items then Inr False
        else
          bind_e (case get_property_items (JObj property) of
                    Inl KeyError \<Rightarrow> bind_e (getitem0 (get property ''anyOf'')) get_property_items
                  | Inl TypeError \<Rightarrow> bind_e (getitem0 (get property ''anyOf'')) get_property_items
                  | r \<Rightarrow> r) (\<lambda>item_property.
          bind_e (py_in (JStr ''$ref'') item_property) (\<lambda>has_ref.
            if has_ref then
              bind_e (getitem item_property ''$ref'') (\<lambda>r.
              bind_e (resolve_reference r references) (\<lambda>object_reference.
              bind_e (getitem object_reference ''type'') (\<lambda>t.
                if t \<in> primitive_types then Inr True
                else if t \<noteq> JStr ''object'' then Inl TypeError
                else py_in (JStr ''properties'') object_reference)))
            else
              bind_e (as_dict item_property) (\<lambda>d. Inr (get d ''type'' \<in> primitive_types))))))"

section \<open>Field dispatcher\<close>

text \<open>
  \<^verbatim>\<open>_render_property\<close> first rewrites the node. Union flattening: when
  \<^verbatim>\<open>property.get("type") is None\<close> and \<^verbatim>\<open>anyOf\<close> is not \<^verbatim>\<open>None\<close>, the
  \<^verbatim>\<open>type\<close> and \<^verbatim>\<open>additionalProperties\<close> entries that the first branch has are
  assigned to the node.
\<close>

definition union_flatten :: "dict \<Rightarrow> error + dict" where
  "union_flatten property =
     (let any_of = get property ''anyOf'' in
      if get property ''type'' = JNull \<and> any_of \<noteq> JNull then
        bind_e (getitem0 any_of) (\<lambda>first_of_any.
        bind_e (py_in (JStr ''type'') first_of_any) (\<lambda>has_type.
        bind_e (if has_type
                then bind_e (getitem first_of_any ''type'') (\<lambda>t.
                       Inr (AList.update ''type'' t property))
                else Inr property) (\<lambda>property1.
        bind_e (py_in (JStr ''additionalProperties'') first_of_any) (\<lambda>has_additional.
          if has_additional
          then bind_e (getitem first_of_any ''additionalProperties'') (\<lambda>a.
                 Inr (AList.update ''additionalProperties'' a property1))
          else Inr property1))))
      else Inr property)"

text \<open>Then an \<^verbatim>\<open>items\<close> list whose first element is empty gets the type
  \<^verbatim>\<open>string\<close> on that element.\<close>

definition fix_empty_items :: "dict \<Rightarrow> error + dict" where
  "fix_empty_items property =
     (case get_d property ''items'' (JObj []) of
        JList (x # xs) \<Rightarrow>
          if \<not> truthy x then
            bind_e (get_property_items (JObj property)) (\<lambda>item.
            bind_e (setitem item ''type'' (JStr ''string'')) (\<lambda>item'.
              Inr (AList.update ''items'' (JList (item' # xs)) property)))
          else Inr property
      | _ \<Rightarrow> Inr property)"

text \<open>The renderers, and the chain of tests of \<^verbatim>\<open>_render_property\<close> that picks one:
  the first test that succeeds decides.\<close>

datatype renderer =
    Single_enum_input
  | Multi_enum_input
  | Single_file_input
  | Multi_file_input
  | Single_datetime_input
  | Single_color_input
  | Single_boolean_input
  | Single_dict_input
  | Single_number_input
  | Single_string_input
  | Single_object_input
  | List_input
  | Single_reference
  | Union_property
  | Unsupported_warning

definition select_renderer :: "dict \<Rightarrow> dict \<Rightarrow> error + renderer" where
  "select_renderer property references =
     (if is_single_enum_property property references then Inr Single_enum_input
      else if is_multi_enum_property property references then Inr Multi_enum_input
      else if is_single_file_property property then Inr Single_file_input
      else if is_multi_file_property property then Inr Multi_file_input
      else if is_single_datetime_property property then Inr Single_datetime_input
      else if is_single_color_property property then Inr Single_color_input
      else if is_single_boolean_property property then Inr Single_boolean_input
      else if is_single_dict_property property then Inr Single_dict_input
      else if is_single_number_property property then Inr Single_number_input
      else if is_single_string_property property then Inr Single_string_input
      else if is_single_object property references then Inr Single_object_input
      else
        bind_e (is_property_list_and_object property references) (\<lambda>is_list.
          if is_list then Inr List_input
          else if is_single_reference property then Inr Single_reference
          else
            bind_e (is_union_property property) (\<lambda>is_union.
              if is_union then Inr Union_property
              else if get property ''type'' = JNull then Inr Single_string_input
              else if get property ''type'' = JStr ''array'' then Inr Single_string_input
              else Inr Unsupported_warning)))"

text \<open>
  \<^verbatim>\<open>options.index(v)\<close>: the position of the first element equal to \<open>v\<close>, or
  \<^verbatim>\<open>ValueError\<close>. A string has \<^verbatim>\<open>index\<close> too (the position of a substring); a
  dictionary and the scalars have not.
\<close>

fun first_index :: "json \<Rightarrow> json list \<Rightarrow> nat \<Rightarrow> error + nat" where
  "first_index v [] i = Inl ValueError"
| "first_index v (x # xs) i = (if py_eq x v then Inr i else first_index v xs (Suc i))"

fun str_find :: "string \<Rightarrow> string \<Rightarrow> nat \<Rightarrow> error + nat" where
  "str_find t [] i = (if t = [] then Inr i else Inl ValueError)"
| "str_find t (c # cs) i =
     (if take (length t) (c # cs) = t then Inr i else str_find t cs (Suc i))"

fun py_index :: "json \<Rightarrow> json \<Rightarrow> error + nat" where
  "py_index (JList xs) v = first_index v xs 0"
| "py_index (JStr s) (JStr t) = str_find t s 0"
| "py_index (JStr s) _ = Inl TypeError"
| "py_index _ _ = Inl AttributeError"

text \<open>
  What rendering a node amounts to: a value returned without any widget, a selection
  widget with its options and preselected index (the host then returns the user's
  choice), or the work of one of the other renderers.
\<close>

datatype rendering =
    Returned json
  | Selectbox json "nat option"
  | Rendered_by renderer

text \<open>
  \<^verbatim>\<open>_render_single_enum_input\<close>. The options are the node's \<^verbatim>\<open>enum\<close> when that is
  non-empty and the \<^verbatim>\<open>enum\<close> of the referenced definition otherwise. The index of
  \<^verbatim>\<open>init_value\<close> (when truthy), else of \<^verbatim>\<open>default\<close> (when not \<^verbatim>\<open>None\<close>), is
  computed before the number of options is looked at. The widget labels are put
  together from the title alone and are left out, \<^verbatim>\<open>lowercase_labels\<close> having its
  default \<^verbatim>\<open>False\<close>.
\<close>

definition select_options :: "dict \<Rightarrow> dict \<Rightarrow> error + json" where
  "select_options property references =
     (if truthy (get property ''enum'') then Inr (get property ''enum'')
      else bind_e (get_single_reference_item property references)
             (\<lambda>reference_item. getitem reference_item ''enum''))"

definition enum_seed :: "dict \<Rightarrow> json option" where
  "enum_seed property =
     (if truthy (get property ''init_value'') then Some (get property ''init_value'')
      else if get property ''default'' \<noteq> JNull then Some (get property ''default'')
      else None)"

definition render_single_enum_input :: "dict \<Rightarrow> dict \<Rightarrow> error + rendering" where
  "render_single_enum_input property references =
     bind_e (select_options property references) (\<lambda>options.
     bind_e (case enum_seed property of
               Some seed \<Rightarrow> bind_e (py_index options seed) (\<lambda>i. Inr (Some i))
             | None \<Rightarrow> Inr None) (\<lambda>index.
     bind_e (py_len options) (\<lambda>n.
       if n = 1 then bind_e (getitem0 options) (\<lambda>v. Inr (Returned v))
       else Inr (Selectbox options index))))"

text \<open>\<^verbatim>\<open>_render_property\<close>: the two rewrites, then the chain of tests on the rewritten
  node, then the renderer.\<close>

definition rewrite_node :: "dict \<Rightarrow> error + dict" where
  "rewrite_node property = bind_e (union_flatten property) fix_empty_items"

definition render_property :: "dict \<Rightarrow> dict \<Rightarrow> error + rendering" where
  "render_property property references =
     bind_e (rewrite_node property) (\<lambda>property'.
     bind_e (select_renderer property' references) (\<lambda>r.
       if r = Single_enum_input then render_single_enum_input property' references
       else Inr (Rendered_by r)))"

section \<open>Union disambiguation\<close>

text \<open>
  \<^verbatim>\<open>next(i for i, x in enumerate(reference_items) if cond(x))\<close>: the candidates are
  tried in order; an exception of the condition ends the scan, and so does the end of
  the list, with \<^verbatim>\<open>StopIteration\<close>.
\<close>

fun next_index :: "(json \<Rightarrow> error + bool) \<Rightarrow> json list \<Rightarrow> nat \<Rightarrow> error + nat" where
  "next_index cond [] i = Inl StopIteration"
| "next_index cond (x # xs) i =
     (case cond x of
        Inl e \<Rightarrow> Inl e
      | Inr hit \<Rightarrow> if hit then Inr i else next_index cond xs (Suc i))"

text \<open>The two conditions of \<^verbatim>\<open>_render_union_property\<close>:
  \<^verbatim>\<open>x["properties"][disc_prop]["enum"] == [property["init_value"][disc_prop]]\<close> and
  \<^verbatim>\<open>x["title"] in property["instance_class"]\<close>.\<close>

definition discriminator_matches :: "json \<Rightarrow> json \<Rightarrow> json \<Rightarrow> error + bool" where
  "discriminator_matches init_value disc_prop x =
     bind_e (getitem x ''properties'') (\<lambda>properties.
     bind_e (subscript properties disc_prop) (\<lambda>disc.
     bind_e (getitem disc ''enum'') (\<lambda>enum.
     bind_e (subscript init_value disc_prop) (\<lambda>v.
       Inr (py_eq enum (JList [v]))))))"

definition title_matches :: "json \<Rightarrow> json \<Rightarrow> error + bool" where
  "title_matches instance_class x =
     bind_e (getitem x ''title'') (\<lambda>title. py_in title instance_class)"

text \<open>
  The part of \<^verbatim>\<open>_render_union_property\<close> that fixes the preselected branch: the
  value of \<^verbatim>\<open>streamlit_kwargs["index"]\<close>, \<open>None\<close> when neither branch of the
  \<^verbatim>\<open>if\<close> is taken. The branch found is also handed the node's \<^verbatim>\<open>init_value\<close>,
  which cannot fail once the branch was found.
\<close>

definition union_ref_index :: "dict \<Rightarrow> dict \<Rightarrow> error + nat option" where
  "union_ref_index property references =
     bind_e (get_union_references property references) (\<lambda>reference_items.
       if truthy (get property ''init_value'') \<and> truthy (get property ''discriminator'') then
         bind_e (getitem (get property ''discriminator'') ''propertyName'') (\<lambda>disc_prop.
         bind_e (next_index (discriminator_matches (get property ''init_value'') disc_prop)
                   reference_items 0) (\<lambda>ref_index. Inr (Some ref_index)))
       else if truthy (get property ''init_value'') \<and> truthy (get property ''instance_class'') then
         bind_e (next_index (title_matches (get property ''instance_class'')) reference_items 0)
           (\<lambda>ref_index. Inr (Some ref_index))
       else Inr None)"

section \<open>Nested objects\<close>

text \<open>
  \<^verbatim>\<open>_is_value_ignored(property_key, value)\<close>: the conjunction stops at its first false
  operand, so the state is read (and, as the walk shows, possibly extended) only for an
  empty \<^verbatim>\<open>int\<close>, \<^verbatim>\<open>float\<close> or \<^verbatim>\<open>str\<close> under \<^verbatim>\<open>ignore_empty_values\<close>.
\<close>

definition is_value_ignored :: "bool \<Rightarrow> string \<Rightarrow> json \<Rightarrow> json \<Rightarrow> (error + bool) \<times> json" where
  "is_value_ignored ignore_empty_values property_key v state =
     (if ignore_empty_values
         \<and> (case v of JInt _ \<Rightarrow> True | JFloat _ \<Rightarrow> True | JStr _ \<Rightarrow> True | _ \<Rightarrow> False)
         \<and> \<not> truthy v
      then (case get_value_from_state state property_key of
              (Inl e, state') \<Rightarrow> (Inl e, state')
            | (Inr stored, state') \<Rightarrow> (Inr (stored = JNull), state'))
      else (Inr False, state))"

text \<open>
  What \<^verbatim>\<open>_render_object_input\<close> does to one child before rendering it: a fallback
  title, the child's share of the parent's \<^verbatim>\<open>init_value\<close>, its share of the
  parent's \<^verbatim>\<open>default\<close> decoded by \<^verbatim>\<open>json.loads\<close>, and the parent's
  \<^verbatim>\<open>readOnly\<close>. The decoder belongs to the standard library and the title function
  \<^verbatim>\<open>_name_to_title\<close> only writes a label; both are parameters. \<^verbatim>\<open>json.loads\<close>
  takes text only, and the dotted key is a string concatenation.
\<close>

definition prepare_child ::
  "(string \<Rightarrow> string) \<Rightarrow> (string \<Rightarrow> error + json) \<Rightarrow> dict \<Rightarrow> json \<Rightarrow> json
     \<Rightarrow> error + string \<times> dict" where
  "prepare_child name_to_title json_loads property properties property_key =
     bind_e (subscript properties property_key) (\<lambda>child.
     bind_e (as_dict child) (\<lambda>new_property.
     bind_e (case property_key of JStr k \<Rightarrow> Inr k | _ \<Rightarrow> Inl TypeError) (\<lambda>k.
     bind_e (if \<not> truthy (get new_property ''title'')
             then Inr (AList.update ''title'' (JStr (name_to_title k)) new_property)
             else Inr new_property) (\<lambda>p1.
     bind_e (if truthy (get property ''init_value'')
             then bind_e (as_dict (get property ''init_value'')) (\<lambda>init.
                    Inr (AList.update ''init_value'' (get init k) p1))
             else Inr p1) (\<lambda>p2.
     bind_e (if truthy (get property ''default'')
             then bind_e (case get property ''default'' of
                            JStr s \<Rightarrow> json_loads s
                          | _ \<Rightarrow> Inl TypeError) (\<lambda>decoded.
                  bind_e (as_dict decoded) (\<lambda>dflt.
                    Inr (AList.update ''default'' (get dflt k) p2)))
             else Inr p2) (\<lambda>p3.
       Inr (k, AList.update ''readOnly'' (get_d property ''readOnly'' (JBool False)) p3)))))))"

text \<open>
  The loop of \<^verbatim>\<open>_render_object_input\<close> over the keys of \<^verbatim>\<open>properties\<close>. Rendering
  a child is the dispatcher's work with the host's widgets; it is a parameter that
  takes the dotted key, the prepared child and the session state and returns a value
  or an exception, and the state.
\<close>

fun render_children ::
  "bool \<Rightarrow> (string \<Rightarrow> string) \<Rightarrow> (string \<Rightarrow> error + json)
     \<Rightarrow> (string \<Rightarrow> dict \<Rightarrow> json \<Rightarrow> (error + json) \<times> json)
     \<Rightarrow> string \<Rightarrow> dict \<Rightarrow> json \<Rightarrow> json list \<Rightarrow> dict \<Rightarrow> json \<Rightarrow> (error + dict) \<times> json" where
  "render_children ignore_empty_values name_to_title json_loads render key property properties
     [] object_inputs state = (Inr object_inputs, state)"
| "render_children ignore_empty_values name_to_title json_loads render key property properties
     (property_key # rest) object_inputs state =
     (case prepare_child name_to_title json_loads property properties property_key of
        Inl e \<Rightarrow> (Inl e, state)
      | Inr (k, new_property) \<Rightarrow>
          (case render (key @ ''.'' @ k) new_property state of
             (Inl e, state1) \<Rightarrow> (Inl e, state1)
           | (Inr v, state1) \<Rightarrow>
               (case is_value_ignored ignore_empty_values k v state1 of
                  (Inl e, state2) \<Rightarrow> (Inl e, state2)
                | (Inr ignored, state2) \<Rightarrow>
                    render_children ignore_empty_values name_to_title json_loads render key
                      property properties rest
                      (if \<not> ignored then AList.update k v object_inputs else object_inputs)
                      state2)))"

definition render_object_input ::
  "bool \<Rightarrow> (string \<Rightarrow> string) \<Rightarrow> (string \<Rightarrow> error + json)
     \<Rightarrow> (string \<Rightarrow> dict \<Rightarrow> json \<Rightarrow> (error + json) \<times> json)
     \<Rightarrow> string \<Rightarrow> dict \<Rightarrow> json \<Rightarrow> (error + dict) \<times> json" where
  "render_object_input ignore_empty_values name_to_title json_loads render key property state =
     (case bind_e (getitem (JObj property) ''properties'') (\<lambda>properties.
           bind_e (py_iter properties) (\<lambda>keys. Inr (properties, keys))) of
        Inl e \<Rightarrow> (Inl e, state)
      | Inr (properties, keys) \<Rightarrow>
          render_children ignore_empty_values name_to_title json_loads render key property
            properties keys [] state)"

section \<open>Collection affordances\<close>

text \<open>
  \<^verbatim>\<open>_remove_button_allowed(index, property)\<close>:
  \<^verbatim>\<open>(property.get("readOnly") is True) or ((index + 1) <= property.get("minItems", 0))\<close>.
  The right operand of \<^verbatim>\<open>or\<close> is evaluated only when the left one is false.
\<close>

definition remove_button_allowed :: "int \<Rightarrow> dict \<Rightarrow> error + bool" where
  "remove_button_allowed index property =
     (if get property ''readOnly'' = JBool True then Inr True
      else int_le (index + 1) (get_d property ''minItems'' (JInt 0)))"

section \<open>Validation of the submitted state\<close>

text \<open>\<^verbatim>\<open>sep.join(parts)\<close> takes strings only, and \<^verbatim>\<open>s.replace(old, new)\<close> replaces
  the occurrences of \<open>old\<close> from the left, without overlap.\<close>

fun str_join :: "string \<Rightarrow> json list \<Rightarrow> error + string" where
  "str_join sep [] = Inr []"
| "str_join sep [x] = (case x of JStr s \<Rightarrow> Inr s | _ \<Rightarrow> Inl TypeError)"
| "str_join sep (x # y # rest) =
     (case x of
        JStr s \<Rightarrow> bind_e (str_join sep (y # rest)) (\<lambda>t. Inr (s @ sep @ t))
      | _ \<Rightarrow> Inl TypeError)"

function str_replace :: "string \<Rightarrow> string \<Rightarrow> string \<Rightarrow> string" where
  "str_replace [] new s = new @ concat (map (\<lambda>c. c # new) s)"
| "str_replace (o1 # old) new [] = []"
| "str_replace (o1 # old) new (c # cs) =
     (if take (Suc (length old)) (c # cs) = o1 # old
      then new @ str_replace (o1 # old) new (drop (Suc (length old)) (c # cs))
      else c # str_replace (o1 # old) new cs)"
  by pat_completeness auto
termination
  by (relation "measure (\<lambda>(old, new, s). length s)") auto

text \<open>
  The handler of \<^verbatim>\<open>ValidationError\<close> in \<^verbatim>\<open>render_ui\<close>. Each error of
  \<^verbatim>\<open>ex.errors()\<close> with a \<^verbatim>\<open>loc\<close> and a \<^verbatim>\<open>msg\<close> adds a paragraph
  \<^verbatim>\<open>**<location>:** <msg>\<close>, where the location is
  \<^verbatim>\<open>".".join(error["loc"]).replace("__root__.", "")\<close>; any other error adds
  \<^verbatim>\<open>str(error)\<close>, a parameter here. The text goes to \<^verbatim>\<open>st.warning\<close> and the
  function returns \<^verbatim>\<open>None\<close>.
\<close>

definition error_paragraph :: "(json \<Rightarrow> string) \<Rightarrow> json \<Rightarrow> error + string" where
  "error_paragraph py_str err =
     bind_e (py_in (JStr ''loc'') err) (\<lambda>has_loc.
     bind_e (if has_loc then py_in (JStr ''msg'') err else Inr False) (\<lambda>has_both.
       if has_both then
         bind_e (getitem err ''loc'') (\<lambda>loc.
         bind_e (py_iter loc) (\<lambda>segments.
         bind_e (str_join ''.'' segments) (\<lambda>joined.
         bind_e (getitem err ''msg'') (\<lambda>msg.
           case msg of
             JStr m \<Rightarrow> Inr (''**'' @ str_replace ''__root__.'' [] joined @ '':** '' @ m)
           | _ \<Rightarrow> Inl TypeError))))
       else Inr (py_str err)))"

fun warning_text :: "(json \<Rightarrow> string) \<Rightarrow> json list \<Rightarrow> string \<Rightarrow> error + string" where
  "warning_text py_str [] error_text = Inr error_text"
| "warning_text py_str (err # errs) error_text =
     bind_e (error_paragraph py_str err) (\<lambda>paragraph.
       warning_text py_str errs (error_text @ [CHR 0x0A, CHR 0x0A] @ paragraph))"

text \<open>
  The end of \<^verbatim>\<open>render_ui\<close>. The validator of the data model is the external schema
  validator: a parameter that returns the validated value or the errors of the
  \<^verbatim>\<open>ValidationError\<close> it raises. The outcome is the text shown by
  \<^verbatim>\<open>st.warning\<close>, if any, and the value returned to the caller.
\<close>

definition render_ui_result ::
  "bool \<Rightarrow> (json \<Rightarrow> json list + json) \<Rightarrow> (json \<Rightarrow> string) \<Rightarrow> json
     \<Rightarrow> error + string option \<times> json" where
  "render_ui_result return_model validate py_str input_state =
     (if return_model then
        (case validate input_state of
           Inr model \<Rightarrow> Inr (None, model)
         | Inl errors \<Rightarrow>
             bind_e (warning_text py_str errors ''**Input failed validation:**'') (\<lambda>error_text.
               Inr (Some error_text, JNull)))
      else Inr (None, input_state))"

text \<open>
  Two notions used to state when the handler succeeds: a location made of strings only,
  and an error that is a dictionary with such a \<^verbatim>\<open>loc\<close> and a string \<^verbatim>\<open>msg\<close>.
\<close>

fun string_segments :: "json list \<Rightarrow> bool" where
  "string_segments [] = True"
| "string_segments (JStr s # rest) = string_segments rest"
| "string_segments (_ # rest) = False"

definition plain_error :: "json \<Rightarrow> bool" where
  "plain_error err \<longleftrightarrow>
     (\<exists>e segments m. err = JObj e \<and> map_of e ''loc'' = Some (JList segments)
        \<and> string_segments segments \<and> map_of e ''msg'' = Some (JStr m))"

section \<open>Example schemas\<close>

text \<open>
  A union of two models discriminated by \<^verbatim>\<open>kind\<close>, with the references table that
  holds them. The instance value is a dog; the class hint names the cat.
\<close>

definition pets :: dict where
  "pets =
     [(''Cat'', JObj [(''title'', JStr ''Cat''), (''type'', JStr ''object''),
        (''properties'', JObj [(''kind'', JObj [(''enum'', JList [JStr ''cat''])]),
                               (''name'', JObj [(''type'', JStr ''string'')])])]),
      (''Dog'', JObj [(''title'', JStr ''Dog''), (''type'', JStr ''object''),
        (''properties'', JObj [(''kind'', JObj [(''enum'', JList [JStr ''dog''])]),
                               (''name'', JObj [(''type'', JStr ''string'')])])])]"

definition pet_union :: dict where
  "pet_union =
     [(''oneOf'', JList [JObj [(''$ref'', JStr ''#/$defs/Cat'')],
                         JObj [(''$ref'', JStr ''#/$defs/Dog'')]]),
      (''discriminator'', JObj [(''propertyName'', JStr ''kind'')]),
      (''init_value'', JObj [(''kind'', JStr ''dog''), (''name'', JStr ''Rex'')]),
      (''instance_class'', JStr ''<class Cat>'')]"

text \<open>
  An object definition whose aggregated default is the text \<^verbatim>\<open>{\<close>, which
  \<^verbatim>\<open>json.loads\<close> rejects with \<^verbatim>\<open>JSONDecodeError\<close>, and whose only child has a
  default of its own. For evaluation the decoder is the one that rejects its text, the
  title function is the identity, and rendering a child returns the child's
  \<^verbatim>\<open>default\<close> entry and leaves the state alone.
\<close>

definition person :: dict where
  "person =
     [(''title'', JStr ''Person''), (''type'', JStr ''object''),
      (''properties'',
         JObj [(''name'', JObj [(''type'', JStr ''string''), (''default'', JStr ''Ann'')])]),
      (''default'', JStr ''{'')]"

definition rejects :: "string \<Rightarrow> error + json" where
  "rejects text = Inl JSONDecodeError"

definition returns_default :: "string \<Rightarrow> dict \<Rightarrow> json \<Rightarrow> (error + json) \<times> json" where
  "returns_default key child state = (Inr (get child ''default''), state)"

text \<open>A node with its own type \<^verbatim>\<open>object\<close> and \<^verbatim>\<open>additionalProperties\<close> that also
  carries a reference, and the table that resolves the reference.\<close>

definition dict_with_reference :: dict where
  "dict_with_reference =
     [(''type'', JStr ''object''),
      (''additionalProperties'', JObj [(''type'', JStr ''string'')]),
      (''$ref'', JStr ''#/$defs/Pet'')]"

definition pet_table :: dict where
  "pet_table = [(''Pet'', JObj [(''type'', JStr ''object''), (''properties'', JObj [])])]"

section \<open>Properties of the collection affordances\<close>

text \<open>
  Claim C3. For every list node and every index, \<^verbatim>\<open>_remove_button_allowed\<close> returns
  true whenever \<open>index + 1\<close> is at most the node's \<^verbatim>\<open>minItems\<close>, a missing
  \<^verbatim>\<open>minItems\<close> counting as 0. The bound \<open>m\<close> is the number that the entry (or the
  default 0) denotes.
\<close>

theorem remove_button_allowed_min_items:
  assumes "as_number (get_d property ''minItems'' (JInt 0)) = Inr m"
    and "of_int (index + 1) \<le> m"
  shows "remove_button_allowed index property = Inr True"
  using assms by (simp add: remove_button_allowed_def int_le_def bind_e_def)

theorem remove_button_allowed_min_items_witness:
  "as_number (get_d [(''type'', JStr ''array''), (''minItems'', JInt 2)] ''minItems'' (JInt 0)) = Inr 2
   \<and> of_int (1 + 1) \<le> (2::rat)
   \<and> remove_button_allowed 1 [(''type'', JStr ''array''), (''minItems'', JInt 2)] = Inr True"
proof -
  have a: "as_number (get_d [(''type'', JStr ''array''), (''minItems'', JInt 2)] ''minItems'' (JInt 0)) = Inr 2"
    by (simp add: get_d_def)
  have b: "of_int (1 + 1) \<le> (2::rat)" by simp
  show ?thesis using a b remove_button_allowed_min_items [OF a b] by simp
qed

section \<open>Properties of the state store\<close>

lemma walk_empty: "get_value_walk (JObj []) (ks @ [f]) = (Inr JNull, nest ks)"
proof (induction ks)
  case Nil
  show ?case by (simp add: has_key_def)
next
  case (Cons k ks)
  obtain k' r where r: "ks @ [f] = k' # r" by (cases "ks @ [f]") auto
  show ?case using Cons r by (simp add: has_key_def getitem_def)
qed

lemma walk_missing:
  assumes "map_of d k = None"
  shows "get_value_walk (JObj d) (k # post @ [f]) = (Inr JNull, JObj (AList.update k (nest post) d))"
proof -
  obtain k' r where r: "post @ [f] = k' # r" by (cases "post @ [f]") auto
  have "get_value_walk (JObj []) (k' # r) = (Inr JNull, nest post)"
    using walk_empty [of post f] r by simp
  then show ?thesis using assms r
    by (simp add: has_key_def getitem_def update_conv')
qed

lemma walk_descend:
  assumes "descend state pre = Some d" and "map_of d k = None"
  shows "get_value_walk (JObj state) (pre @ k # post @ [f])
         = (Inr JNull, JObj (update_at pre (AList.update k (nest post)) state))"
  using assms
proof (induction pre arbitrary: state)
  case Nil
  then show ?case using walk_missing by simp
next
  case (Cons p ps)
  from Cons.prems obtain c where c: "map_of state p = Some (JObj c)" "descend c ps = Some d"
    by (auto split: option.splits json.splits)
  obtain k' r where r: "ps @ k # post @ [f] = k' # r" by (cases "ps @ k # post @ [f]") auto
  have "get_value_walk (JObj c) (k' # r)
         = (Inr JNull, JObj (update_at ps (AList.update k (nest post)) c))"
    using Cons.IH [OF c(2) Cons.prems(2)] r by simp
  then show ?case using c r by (simp add: has_key_def getitem_def)
qed





text \<open>
  Claim C10. The read is not read-only. When an intermediate segment \<open>k\<close> is missing
  from the mapping reached along \<open>pre\<close>, the read returns \<^verbatim>\<open>None\<close> and leaves the
  state with a fresh chain of empty mappings under \<open>k\<close>, one for every intermediate
  segment from \<open>k\<close> on; reading \<^verbatim>\<open>a.b.c\<close> from the empty store leaves
  \<^verbatim>\<open>{'a': {'b': {}}}\<close>.
\<close>

theorem get_value_creates_missing_segments:
  assumes "split_on CHR ''.'' key = pre @ k # post @ [final]"
    and "descend state pre = Some d"
    and "map_of d k = None"
  shows "get_value_from_state (JObj state) key
         = (Inr JNull, JObj (update_at pre (AList.update k (nest post)) state))"
  using assms walk_descend [of state pre d k post final]
  by (simp add: get_value_from_state_def)

theorem get_value_creates_missing_segments_witness:
  "split_on CHR ''.'' ''a.b.c'' = [] @ ''a'' # [''b''] @ [''c'']
   \<and> descend [] [] = Some []
   \<and> map_of ([] :: dict) ''a'' = None
   \<and> get_value_from_state (JObj []) ''a.b.c''
       = (Inr JNull, JObj [(''a'', JObj [(''b'', JObj [])])])"
proof -
  have a: "split_on CHR ''.'' ''a.b.c'' = [] @ ''a'' # [''b''] @ [''c'']" by simp
  have b: "descend [] [] = Some []" by simp
  have c: "map_of ([] :: dict) ''a'' = None" by simp
  show ?thesis using a b c get_value_creates_missing_segments [OF a b c] by simp
qed

section \<open>Facts about dictionaries\<close>



section \<open>Properties of the schema predicates and of the dispatcher\<close>

text \<open>
  Claim C5, as stated, fails: the predicates overlap. A node with its own type
  \<^verbatim>\<open>object\<close> and \<^verbatim>\<open>additionalProperties\<close> that also carries a reference to an
  object definition with \<^verbatim>\<open>properties\<close> satisfies both
  \<^verbatim>\<open>is_single_dict_property\<close> and \<^verbatim>\<open>is_single_object\<close>, and a string node with
  format \<^verbatim>\<open>color\<close> satisfies both the string and the colour predicate.
\<close>

theorem shape_predicates_overlap:
  "is_single_dict_property dict_with_reference
   \<and> is_single_object dict_with_reference pet_table
   \<and> is_single_string_property [(''type'', JStr ''string''), (''format'', JStr ''color'')]
   \<and> is_single_color_property [(''type'', JStr ''string''), (''format'', JStr ''color'')]"
  by (simp add: dict_with_reference_def pet_table_def is_single_dict_property_def
      is_single_object_def is_single_string_property_def is_single_color_property_def
      get_def get_d_def has_key_def get_single_reference_item_def single_reference_def
      resolve_reference_def getitem_def bind_e_def)

text \<open>
  Claim C5, amended. The classifications are told apart by the order of the tests, not
  by the predicates: a node that satisfies \<^verbatim>\<open>is_single_dict_property\<close> is rendered
  as a dictionary, or as a single enum when it is one, and so never as a single object,
  whatever \<^verbatim>\<open>is_single_object\<close> says of it.
\<close>

theorem dict_node_never_rendered_as_object:
  assumes "is_single_dict_property property"
  shows "select_renderer property references =
           Inr (if is_single_enum_property property references then Single_enum_input
                else Single_dict_input)"
proof -
  from assms have t: "get property ''type'' = JStr ''object''"
    by (simp add: is_single_dict_property_def split: if_splits)
  show ?thesis using assms t
    by (simp add: select_renderer_def is_multi_enum_property_def is_single_file_property_def
        is_multi_file_property_def is_single_datetime_property_def is_single_color_property_def
        is_single_boolean_property_def)
qed

theorem dict_node_never_rendered_as_object_witness:
  "is_single_dict_property dict_with_reference
   \<and> is_single_object dict_with_reference pet_table
   \<and> select_renderer dict_with_reference pet_table = Inr Single_dict_input"
proof -
  have a: "is_single_dict_property dict_with_reference"
    by (simp add: dict_with_reference_def is_single_dict_property_def get_def get_d_def
        has_key_def)
  have b: "\<not> is_single_enum_property dict_with_reference pet_table"
    by (simp add: dict_with_reference_def pet_table_def is_single_enum_property_def get_def
        get_d_def get_single_reference_item_def single_reference_def resolve_reference_def
        getitem_def bind_e_def)
  have c: "is_single_object dict_with_reference pet_table"
    by (simp add: dict_with_reference_def pet_table_def is_single_object_def get_def get_d_def
        has_key_def get_single_reference_item_def single_reference_def resolve_reference_def
        getitem_def bind_e_def)
  show ?thesis
    using a b c dict_node_never_rendered_as_object [OF a, of pet_table] by simp
qed

text \<open>
  Claim C6, as stated, fails: a node that carries a literal \<^verbatim>\<open>enum\<close> next to a
  reference to a missing definition is a single enum, and an array of unique items whose
  item schema carries an \<^verbatim>\<open>enum\<close> key next to such a reference is a multi enum. The
  predicates answer before any resolution is tried.
\<close>

theorem enum_probe_literal_with_missing_reference:
  "single_reference [(''enum'', JList [JStr ''a'']), (''$ref'', JStr ''#/$defs/Missing'')]
     = Inr (JStr ''#/$defs/Missing'')
   \<and> resolve_reference (JStr ''#/$defs/Missing'') [] = Inl KeyError
   \<and> is_single_enum_property
        [(''enum'', JList [JStr ''a'']), (''$ref'', JStr ''#/$defs/Missing'')] []
   \<and> is_multi_enum_property
        [(''type'', JStr ''array''), (''uniqueItems'', JBool True),
         (''items'', JObj [(''enum'', JList [JStr ''a'']), (''$ref'', JStr ''#/$defs/Missing'')])]
        []"
  by (simp add: single_reference_def resolve_reference_def is_single_enum_property_def
      is_multi_enum_property_def get_property_items_def get_def get_d_def getitem_def
      bind_e_def)

text \<open>
  Claim C6, amended. When the reference of a node (its \<^verbatim>\<open>$ref\<close>, or the \<^verbatim>\<open>$ref\<close>
  of the first element of \<^verbatim>\<open>allOf\<close>) names a definition missing from the references
  table, \<^verbatim>\<open>is_single_enum_property\<close> raises nothing and answers whether the node has a
  non-empty literal \<^verbatim>\<open>enum\<close>: false unless it has one. When the \<^verbatim>\<open>$ref\<close> of the
  items of a node names a missing definition, \<^verbatim>\<open>is_multi_enum_property\<close> raises
  nothing and answers whether the node is an array of unique items whose item schema has
  an \<^verbatim>\<open>enum\<close> key: false unless it has one.
\<close>

theorem enum_probes_missing_reference:
  assumes "map_of references (last (split_on CHR ''/'' s)) = None"
  shows "(single_reference property = Inr (JStr s) \<longrightarrow>
            is_single_enum_property property references = truthy (get property ''enum''))
         \<and> (get_property_items (JObj node) = Inr items \<and> getitem items ''$ref'' = Inr (JStr s) \<longrightarrow>
              is_multi_enum_property node references
              = (get node ''type'' = JStr ''array'' \<and> get node ''uniqueItems'' = JBool True
                 \<and> (\<exists>e. getitem items ''enum'' = Inr e)))"
proof -
  have r: "resolve_reference (JStr s) references = Inl KeyError"
    using assms by (simp add: resolve_reference_def getitem_def)
  have single: "single_reference property = Inr (JStr s) \<longrightarrow>
           is_single_enum_property property references = truthy (get property ''enum'')"
    using r by (simp add: is_single_enum_property_def get_single_reference_item_def bind_e_def)
  have multi: "get_property_items (JObj node) = Inr items \<and> getitem items ''$ref'' = Inr (JStr s) \<longrightarrow>
           is_multi_enum_property node references
           = (get node ''type'' = JStr ''array'' \<and> get node ''uniqueItems'' = JBool True
              \<and> (\<exists>e. getitem items ''enum'' = Inr e))"
    using r by (auto simp add: is_multi_enum_property_def bind_e_def split: sum.splits)
  show ?thesis using single multi by blast
qed

theorem enum_probes_missing_reference_witness:
  "map_of ([] :: dict) (last (split_on CHR ''/'' ''#/$defs/Missing'')) = None
   \<and> single_reference [(''allOf'', JList [JObj [(''$ref'', JStr ''#/$defs/Missing'')]])]
       = Inr (JStr ''#/$defs/Missing'')
   \<and> \<not> is_single_enum_property
          [(''allOf'', JList [JObj [(''$ref'', JStr ''#/$defs/Missing'')]])] []
   \<and> get_property_items
        (JObj [(''type'', JStr ''array''), (''uniqueItems'', JBool True),
               (''items'', JObj [(''$ref'', JStr ''#/$defs/Missing'')])])
       = Inr (JObj [(''$ref'', JStr ''#/$defs/Missing'')])
   \<and> getitem (JObj [(''$ref'', JStr ''#/$defs/Missing'')]) ''$ref'' = Inr (JStr ''#/$defs/Missing'')
   \<and> \<not> is_multi_enum_property
          [(''type'', JStr ''array''), (''uniqueItems'', JBool True),
           (''items'', JObj [(''$ref'', JStr ''#/$defs/Missing'')])] []"
proof -
  have a: "map_of ([] :: dict) (last (split_on CHR ''/'' ''#/$defs/Missing'')) = None"
    by simp
  have b: "single_reference [(''allOf'', JList [JObj [(''$ref'', JStr ''#/$defs/Missing'')]])]
       = Inr (JStr ''#/$defs/Missing'')"
    by (simp add: single_reference_def get_def get_d_def getitem_def getitem0_def
        seq_index_def bind_e_def)
  have c: "get_property_items
        (JObj [(''type'', JStr ''array''), (''uniqueItems'', JBool True),
               (''items'', JObj [(''$ref'', JStr ''#/$defs/Missing'')])])
       = Inr (JObj [(''$ref'', JStr ''#/$defs/Missing'')])"
    by (simp add: get_property_items_def getitem_def bind_e_def)
  have d: "getitem (JObj [(''$ref'', JStr ''#/$defs/Missing'')]) ''$ref''
       = Inr (JStr ''#/$defs/Missing'')"
    by (simp add: getitem_def)
  have e: "\<not> truthy (get [(''allOf'', JList [JObj [(''$ref'', JStr ''#/$defs/Missing'')]])] ''enum'')"
    by (simp add: get_def get_d_def)
  have f: "\<not> (\<exists>e. getitem (JObj [(''$ref'', JStr ''#/$defs/Missing'')]) ''enum'' = Inr e)"
    by (simp add: getitem_def)
  note t = enum_probes_missing_reference [OF a,
      of "[(''allOf'', JList [JObj [(''$ref'', JStr ''#/$defs/Missing'')]])]"
         "[(''type'', JStr ''array''), (''uniqueItems'', JBool True),
           (''items'', JObj [(''$ref'', JStr ''#/$defs/Missing'')])]"
         "JObj [(''$ref'', JStr ''#/$defs/Missing'')]"]
  have g: "\<not> is_single_enum_property
          [(''allOf'', JList [JObj [(''$ref'', JStr ''#/$defs/Missing'')]])] []"
    using t b e by blast
  have h: "\<not> is_multi_enum_property
          [(''type'', JStr ''array''), (''uniqueItems'', JBool True),
           (''items'', JObj [(''$ref'', JStr ''#/$defs/Missing'')])] []"
    using t c d f by blast
  show ?thesis using a b c d g h by blast
qed



text \<open>
  Claim C8, as stated, fails: the index of the seed (\<^verbatim>\<open>init_value\<close>, else
  \<^verbatim>\<open>default\<close>) among the options is computed before the number of options is looked
  at, and \<^verbatim>\<open>list.index\<close> raises \<^verbatim>\<open>ValueError\<close> for a seed that is no option. The
  node below is a single enum with the one option \<^verbatim>\<open>a\<close> and the default \<^verbatim>\<open>b\<close>.
\<close>

theorem single_enum_seed_not_an_option:
  "select_renderer [(''enum'', JList [JStr ''a'']), (''default'', JStr ''b'')] []
     = Inr Single_enum_input
   \<and> select_options [(''enum'', JList [JStr ''a'']), (''default'', JStr ''b'')] []
     = Inr (JList [JStr ''a''])
   \<and> render_property [(''enum'', JList [JStr ''a'']), (''default'', JStr ''b'')] []
     = Inl ValueError"
  by (simp add: select_renderer_def is_single_enum_property_def select_options_def
      render_property_def rewrite_node_def union_flatten_def fix_empty_items_def
      render_single_enum_input_def enum_seed_def get_def get_d_def bind_e_def)

lemma select_options_enum:
  "select_options p references = Inr options \<Longrightarrow> is_single_enum_property p references"
  by (auto simp add: select_options_def is_single_enum_property_def split: if_splits)

text \<open>
  Claim C8, amended. When the options of the rewritten node are a list of exactly one
  element, the node is classified as a single enum, and when the seed of the node, if
  it has one, equals that element, the dispatcher returns the element itself and
  presents no selection widget.
\<close>

theorem single_option_returned:
  assumes "rewrite_node property = Inr p"
    and "select_options p references = Inr (JList [v])"
    and "\<forall>seed. enum_seed p = Some seed \<longrightarrow> py_eq v seed"
  shows "select_renderer p references = Inr Single_enum_input
         \<and> render_property property references = Inr (Returned v)"
proof -
  have e: "is_single_enum_property p references"
    using assms(2) by (rule select_options_enum)
  then have s: "select_renderer p references = Inr Single_enum_input"
    by (simp add: select_renderer_def)
  have "render_single_enum_input p references = Inr (Returned v)"
    using assms(2,3)
    by (cases "enum_seed p")
       (simp_all add: render_single_enum_input_def bind_e_def getitem0_def seq_index_def)
  then show ?thesis using s assms(1) by (simp add: render_property_def bind_e_def)
qed

theorem single_option_returned_witness:
  "rewrite_node [(''enum'', JList [JStr ''cat'']), (''init_value'', JStr ''cat'')]
     = Inr [(''enum'', JList [JStr ''cat'']), (''init_value'', JStr ''cat'')]
   \<and> select_options [(''enum'', JList [JStr ''cat'']), (''init_value'', JStr ''cat'')] []
       = Inr (JList [JStr ''cat''])
   \<and> enum_seed [(''enum'', JList [JStr ''cat'']), (''init_value'', JStr ''cat'')]
       = Some (JStr ''cat'')
   \<and> py_eq (JStr ''cat'') (JStr ''cat'')
   \<and> render_property [(''enum'', JList [JStr ''cat'']), (''init_value'', JStr ''cat'')] []
       = Inr (Returned (JStr ''cat''))"
proof -
  have a: "rewrite_node [(''enum'', JList [JStr ''cat'']), (''init_value'', JStr ''cat'')]
     = Inr [(''enum'', JList [JStr ''cat'']), (''init_value'', JStr ''cat'')]"
    by (simp add: rewrite_node_def union_flatten_def fix_empty_items_def get_def get_d_def
        bind_e_def)
  have b: "select_options [(''enum'', JList [JStr ''cat'']), (''init_value'', JStr ''cat'')] []
       = Inr (JList [JStr ''cat''])"
    by (simp add: select_options_def get_def get_d_def)
  have s: "enum_seed [(''enum'', JList [JStr ''cat'']), (''init_value'', JStr ''cat'')]
       = Some (JStr ''cat'')"
    by (simp add: enum_seed_def get_def get_d_def)
  have c: "\<forall>seed. enum_seed [(''enum'', JList [JStr ''cat'']), (''init_value'', JStr ''cat'')]
             = Some seed \<longrightarrow> py_eq (JStr ''cat'') seed"
    using s by simp
  show ?thesis using a b s single_option_returned [OF a b c] by simp
qed

section \<open>Properties of union disambiguation\<close>





text \<open>
  A candidate that lacks the discriminator property is not skipped: met before any
  match, it ends the scan with \<^verbatim>\<open>KeyError\<close>.
\<close>

lemma discriminator_scan_key_error:
  "union_ref_index pet_union
     (AList.update ''Cat''
        (JObj [(''title'', JStr ''Cat''), (''type'', JStr ''object''),
               (''properties'', JObj [(''name'', JObj [(''type'', JStr ''string'')])])])
        pets)
   = Inl KeyError"
  by (simp add: union_ref_index_def get_union_references_def discriminator_matches_def
      pet_union_def pets_def get_def get_d_def bind_e_def getitem_def resolve_reference_def)

section \<open>Properties of nested objects\<close>

text \<open>
  Claim C2, as stated, fails: \<^verbatim>\<open>_render_object_input\<close> calls \<^verbatim>\<open>json.loads\<close> on the
  parent's default with no handler around it. On the object whose default is the text
  \<^verbatim>\<open>{\<close> the \<^verbatim>\<open>JSONDecodeError\<close> escapes, although the only child has a default of
  its own that it would be rendered with if the parent had none.
\<close>

theorem undecodable_default_escapes:
  "render_object_input False (\<lambda>name. name) rejects returns_default ''owner'' person (JObj [])
     = (Inl JSONDecodeError, JObj [])
   \<and> render_object_input False (\<lambda>name. name) rejects returns_default ''owner''
       (AList.delete ''default'' person) (JObj [])
     = (Inr [(''name'', JStr ''Ann'')], JObj [])"
  by (simp add: render_object_input_def prepare_child_def person_def rejects_def
      returns_default_def is_value_ignored_def getitem_def get_def get_d_def bind_e_def)

lemma prepare_child_undecodable:
  assumes "map_of props k = Some (JObj child)"
    and "get property ''default'' = JStr s" and "s \<noteq> []"
    and "json_loads s = Inl e"
    and "truthy (get property ''init_value'') \<longrightarrow> (\<exists>init. get property ''init_value'' = JObj init)"
  shows "prepare_child name_to_title json_loads property (JObj props) (JStr k) = Inl e"
  using assms by (auto simp add: prepare_child_def bind_e_def)

text \<open>
  Claim C2, amended. When the aggregated default of an object node is a non-empty text
  that \<^verbatim>\<open>json.loads\<close> rejects, the node has at least one property whose schema is a
  mapping, and its \<^verbatim>\<open>init_value\<close> is empty or a mapping, then
  \<^verbatim>\<open>_render_object_input\<close> raises the decoder's \<^verbatim>\<open>JSONDecodeError\<close> while it
  prepares the first child: no child is rendered and the state is left as it was.
\<close>

theorem undecodable_default_raises:
  assumes "map_of property ''properties'' = Some (JObj ((k, JObj child) # others))"
    and "get property ''default'' = JStr s" and "s \<noteq> []"
    and "json_loads s = Inl JSONDecodeError"
    and "truthy (get property ''init_value'') \<longrightarrow> (\<exists>init. get property ''init_value'' = JObj init)"
  shows "render_object_input ignore_empty_values name_to_title json_loads render key property state
         = (Inl JSONDecodeError, state)"
proof -
  have "prepare_child name_to_title json_loads property (JObj ((k, JObj child) # others)) (JStr k)
        = Inl JSONDecodeError"
    using assms(2-5) by (intro prepare_child_undecodable) simp_all
  then show ?thesis using assms(1)
    by (simp add: render_object_input_def getitem_def bind_e_def)
qed

theorem undecodable_default_raises_witness:
  "map_of person ''properties''
     = Some (JObj ((''name'', JObj [(''type'', JStr ''string''), (''default'', JStr ''Ann'')]) # []))
   \<and> get person ''default'' = JStr ''{''
   \<and> rejects ''{'' = Inl JSONDecodeError
   \<and> \<not> truthy (get person ''init_value'')
   \<and> render_object_input True (\<lambda>name. name) rejects returns_default ''owner'' person (JObj [])
       = (Inl JSONDecodeError, JObj [])"
proof -
  have a: "map_of person ''properties''
     = Some (JObj ((''name'', JObj [(''type'', JStr ''string''), (''default'', JStr ''Ann'')]) # []))"
    by (simp add: person_def)
  have b: "get person ''default'' = JStr ''{''"
    by (simp add: person_def get_def get_d_def)
  have c: "''{'' \<noteq> []" by simp
  have d: "rejects ''{'' = Inl JSONDecodeError"
    by (simp add: rejects_def)
  have n: "\<not> truthy (get person ''init_value'')"
    by (simp add: person_def get_def get_d_def)
  then have e: "truthy (get person ''init_value'') \<longrightarrow> (\<exists>init. get person ''init_value'' = JObj init)"
    by simp
  show ?thesis
    using a b d n
      undecodable_default_raises [where json_loads = rejects and ignore_empty_values = True
        and name_to_title = "\<lambda>name. name" and render = returns_default
        and key = "''owner''" and state = "JObj []", OF a b c d e]
    by simp
qed

section \<open>Properties of the validation handler\<close>

text \<open>When every error is a dictionary whose location is made of strings and whose
  message is a string, the handler shows a warning and returns \<^verbatim>\<open>None\<close>.\<close>

lemma str_join_strings: "string_segments xs \<Longrightarrow> \<exists>t. str_join sep xs = Inr t"
proof (induction xs rule: string_segments.induct)
  case 1
  show ?case by simp
next
  case (2 s rest)
  then obtain t where t: "str_join sep rest = Inr t" by auto
  show ?case
  proof (cases rest)
    case Nil
    then show ?thesis by simp
  next
    case (Cons y ys)
    then show ?thesis using t by (simp add: bind_e_def)
  qed
qed simp_all

lemma error_paragraph_plain:
  assumes "plain_error err"
  shows "\<exists>t. error_paragraph py_str err = Inr t"
proof -
  from assms obtain e segments m where
    e: "err = JObj e" "map_of e ''loc'' = Some (JList segments)"
       "string_segments segments" "map_of e ''msg'' = Some (JStr m)"
    unfolding plain_error_def by blast
  from str_join_strings [OF e(3)] obtain t where "str_join ''.'' segments = Inr t" by blast
  then show ?thesis using e(1,2,4)
    by (simp add: error_paragraph_def has_key_def getitem_def bind_e_def)
qed

lemma warning_text_plain:
  "list_all plain_error errors \<Longrightarrow> \<exists>t. warning_text py_str errors acc = Inr t"
proof (induction errors arbitrary: acc)
  case Nil
  show ?case by simp
next
  case (Cons err errors)
  then obtain p where "error_paragraph py_str err = Inr p"
    using error_paragraph_plain by fastforce
  then show ?case using Cons by (simp add: bind_e_def)
qed

lemma validation_failure_reported:
  assumes "validate input_state = Inl errors" and "list_all plain_error errors"
  shows "\<exists>t. render_ui_result True validate py_str input_state = Inr (Some t, JNull)"
proof -
  from warning_text_plain [OF assms(2)] obtain t where
    "warning_text py_str errors ''**Input failed validation:**'' = Inr t" by blast
  then show ?thesis using assms(1) by (simp add: render_ui_result_def bind_e_def)
qed

lemma validation_failure_text:
  "render_ui_result True
     (\<lambda>input_state. Inl [JObj [(''type'', JStr ''missing''),
                               (''loc'', JList [JStr ''__root__'', JStr ''owner'', JStr ''name'']),
                               (''msg'', JStr ''Field required'')]])
     py_str (JObj [])
   = Inr (Some (''**Input failed validation:**'' @ [CHR 0x0A, CHR 0x0A]
                @ ''**owner.name:** Field required''), JNull)"
  by (simp add: render_ui_result_def error_paragraph_def has_key_def getitem_def bind_e_def)

text \<open>
  Claim C4 holds for errors located by field names only, and fails for an error inside
  a list: the validator locates it by the field name and the integer position of the
  item, \<^verbatim>\<open>".".join\<close> accepts strings only, and the \<^verbatim>\<open>TypeError\<close> it raises inside
  the handler reaches the caller; no warning is shown and \<^verbatim>\<open>None\<close> is not returned.
  The input is the state of a model with a list of non-empty strings in which the user
  has left the first item empty.
\<close>

theorem validation_error_in_list_item_propagates:
  "render_ui_result True
     (\<lambda>input_state. Inl [JObj [(''type'', JStr ''string_too_short''),
                               (''loc'', JList [JStr ''names'', JInt 0]),
                               (''msg'', JStr ''String should have at least 1 character'')]])
     py_str (JObj [(''names'', JList [JStr ''''])])
   = Inl TypeError"
  by (simp add: render_ui_result_def error_paragraph_def has_key_def getitem_def bind_e_def)

end
